theory Spec2Isabelle
  imports Complex_Main
begin

section \<open>The page: elements, document and window\<close>

text \<open>
  The script \<^verbatim>\<open>script.js\<close> wires DOM events to style mutations. Its only state is the
  live document, so the model is an explicit store of element objects, addressed by
  reference (a natural number), together with the parts of \<^verbatim>\<open>window\<close> and
  \<^verbatim>\<open>document\<close> the handlers read or write. A handler is a function from the page to
  the page; a handler that throws keeps the page as it was when the exception left it.

  Inline style properties and attributes are JavaScript strings. An inline style
  property that was never assigned reads as the empty string; an absent attribute reads
  as \<^verbatim>\<open>null\<close>, here \<open>None\<close>. The layout values \<^verbatim>\<open>offsetTop\<close> and
  \<^verbatim>\<open>offsetHeight\<close> are integers in the DOM; \<^verbatim>\<open>getBoundingClientRect().top\<close> and
  \<^verbatim>\<open>window.scrollY\<close> may be fractional and are real numbers here. \<open>tagName\<close>
  holds the element type in the lower case in which selectors are written, and
  \<open>id_attr\<close> the \<^verbatim>\<open>id\<close> of the element, empty when it has none.
  \<open>focusable\<close> tells whether the element takes the focus by its type, as a button,
  a link or a form field does; an element with a \<^verbatim>\<open>tabindex\<close> attribute takes it
  whatever its type.
\<close>

record element =
  tagName :: string
  id_attr :: string
  focusable :: bool
  classList :: "string list"
  display :: string
  padding :: string
  boxShadow :: string
  opacity :: string
  transform :: string
  transition :: string
  aria_expanded :: "string option"
  aria_hidden :: "string option"
  tabindex :: "string option"
  offsetTop :: int
  offsetHeight :: int
  rectTop :: real

datatype error = TypeError | SyntaxError

text \<open>
  \<open>elems\<close> is the heap of element objects and \<open>document\<close> lists the references of
  the elements attached to the document, in document order. The selectors the script
  writes as literals (a tag name, a class, a group of classes) are evaluated on these
  two. The selector of the smooth-scroll handler is computed from an \<^verbatim>\<open>href\<close>;
  what the browser answers for it is the field \<open>querySelector\<close>, which may also be
  the \<^verbatim>\<open>SyntaxError\<close> that \<^verbatim>\<open>document.querySelector\<close> throws for a string that is
  not a selector. \<open>contains a b\<close> is \<^verbatim>\<open>a.contains(b)\<close>.

  \<open>scrollRequests\<close> logs the \<^verbatim>\<open>top\<close> of every \<^verbatim>\<open>window.scrollTo\<close> call,
  \<open>history\<close> the URL of every \<^verbatim>\<open>history.pushState\<close> call, \<open>intervals\<close> the delay
  of every \<^verbatim>\<open>setInterval\<close> call, oldest first. \<open>defaultPrevented\<close> is the flag of
  the event being dispatched.
\<close>

record page =
  elems :: "nat \<Rightarrow> element"
  document :: "nat list"
  querySelector :: "string \<Rightarrow> error + nat option"
  contains :: "nat \<Rightarrow> nat \<Rightarrow> bool"
  scrollY :: real
  innerWidth :: int
  innerHeight :: int
  scrollRequests :: "int list"
  history :: "string list"
  activeElement :: "nat option"
  intervals :: "nat list"
  defaultPrevented :: bool

datatype outcome = Returned page | Threw error page

definition querySelector_tag :: "page \<Rightarrow> string \<Rightarrow> nat option" where
  "querySelector_tag p t = find (\<lambda>n. tagName (elems p n) = t) (document p)"

definition querySelectorAll_class :: "page \<Rightarrow> string \<Rightarrow> nat list" where
  "querySelectorAll_class p c = filter (\<lambda>n. c \<in> set (classList (elems p n))) (document p)"

definition querySelector_class :: "page \<Rightarrow> string \<Rightarrow> nat option" where
  "querySelector_class p c = find (\<lambda>n. c \<in> set (classList (elems p n))) (document p)"

text \<open>An assignment to a style property or an attribute of the element \<open>n\<close>.\<close>

definition update_elem :: "nat \<Rightarrow> (element \<Rightarrow> element) \<Rightarrow> page \<Rightarrow> page" where
  "update_elem n f p = p\<lparr>elems := (elems p)(n := f (elems p n))\<rparr>"

text \<open>
  \<^verbatim>\<open>element.focus()\<close> moves the focus to an element that can take it and does
  nothing otherwise.
\<close>

definition focus :: "nat \<Rightarrow> page \<Rightarrow> page" where
  "focus n p =
     (if focusable (elems p n) \<or> tabindex (elems p n) \<noteq> None
      then p\<lparr>activeElement := Some n\<rparr> else p)"

text \<open>
  Two notions of the prose that the script itself never computes: the attached element
  an \<^verbatim>\<open>href\<close> names, which is the first one whose \<^verbatim>\<open>id\<close> is the fragment after
  the \<^verbatim>\<open>#\<close>, and the document-relative top of an element, which is the top of its
  bounding rectangle plus the scroll offset of the window.
\<close>

definition element_with_id :: "page \<Rightarrow> string \<Rightarrow> nat option" where
  "element_with_id p i = find (\<lambda>n. id_attr (elems p n) = i) (document p)"

definition document_top :: "page \<Rightarrow> nat \<Rightarrow> real" where
  "document_top p n = rectTop (elems p n) + scrollY p"

section \<open>Sticky header\<close>

text \<open>
  \<^verbatim>\<open>initStickyHeader\<close> looks the header up once and registers the scroll listener;
  the listener closes over the result, which is \<^verbatim>\<open>null\<close> when the page has no
  header. Assigning to \<^verbatim>\<open>header.style\<close> then throws a \<^verbatim>\<open>TypeError\<close>.
\<close>

definition initStickyHeader :: "page \<Rightarrow> nat option" where
  "initStickyHeader p = querySelector_tag p ''header''"

definition stickyHeader_scroll :: "nat option \<Rightarrow> page \<Rightarrow> outcome" where
  "stickyHeader_scroll header p =
     (if scrollY p > 100 then
        (case header of
           None \<Rightarrow> Threw TypeError p
         | Some h \<Rightarrow>
             Returned (update_elem h (\<lambda>e. e\<lparr>boxShadow := ''0 5px 20px rgba(0, 0, 0, 0.1)''\<rparr>)
                      (update_elem h (\<lambda>e. e\<lparr>padding := ''10px 0''\<rparr>) p)))
      else
        (case header of
           None \<Rightarrow> Threw TypeError p
         | Some h \<Rightarrow>
             Returned (update_elem h (\<lambda>e. e\<lparr>boxShadow := ''0 2px 10px rgba(0, 0, 0, 0.1)''\<rparr>)
                      (update_elem h (\<lambda>e. e\<lparr>padding := ''20px 0''\<rparr>) p))))"

section \<open>Mobile menu\<close>

text \<open>
  \<^verbatim>\<open>initMobileMenu\<close> returns early unless both the toggle and the panel exist; the
  three listeners then close over the two elements.
\<close>

record menu =
  mobileMenu :: nat
  navLinks :: nat

definition initMobileMenu :: "page \<Rightarrow> menu option" where
  "initMobileMenu p =
     (case querySelector_class p ''mobile-menu'' of
        None \<Rightarrow> None
      | Some mm \<Rightarrow>
          (case querySelector_class p ''nav-links'' of
             None \<Rightarrow> None
           | Some nl \<Rightarrow> Some \<lparr>mobileMenu = mm, navLinks = nl\<rparr>))"

definition close_menu :: "menu \<Rightarrow> page \<Rightarrow> page" where
  "close_menu m p =
     update_elem (mobileMenu m) (\<lambda>e. e\<lparr>aria_expanded := Some ''false''\<rparr>)
       (update_elem (navLinks m) (\<lambda>e. e\<lparr>display := ''none''\<rparr>) p)"

definition open_menu :: "menu \<Rightarrow> page \<Rightarrow> page" where
  "open_menu m p =
     update_elem (mobileMenu m) (\<lambda>e. e\<lparr>aria_expanded := Some ''true''\<rparr>)
       (update_elem (navLinks m) (\<lambda>e. e\<lparr>display := ''flex''\<rparr>) p)"

text \<open>The click listener of the toggle; \<^verbatim>\<open>this\<close> is the toggle.\<close>

definition mobileMenu_click :: "menu \<Rightarrow> page \<Rightarrow> page" where
  "mobileMenu_click m p =
     (let isExpanded = (aria_expanded (elems p (mobileMenu m)) = Some ''true'') in
      if display (elems p (navLinks m)) = ''flex'' then close_menu m p else open_menu m p)"

text \<open>The click listener of the document: a click outside both elements closes.\<close>

definition document_click :: "menu \<Rightarrow> nat \<Rightarrow> page \<Rightarrow> page" where
  "document_click m target p =
     (if \<not> contains p (navLinks m) target \<and> \<not> contains p (mobileMenu m) target
      then close_menu m p else p)"

text \<open>The keydown listener of the document.\<close>

definition document_keydown :: "menu \<Rightarrow> string \<Rightarrow> page \<Rightarrow> page" where
  "document_keydown m key p =
     (if key = ''Escape'' \<and> display (elems p (navLinks m)) = ''flex''
      then focus (mobileMenu m) (close_menu m p) else p)"

text \<open>
  A click is dispatched to its target and bubbles: the listener of the toggle runs when
  the target lies in the toggle, the listener of the document runs after it.
\<close>

definition dispatch_click :: "menu \<Rightarrow> nat \<Rightarrow> page \<Rightarrow> page" where
  "dispatch_click m target p =
     document_click m target
       (if contains p (mobileMenu m) target then mobileMenu_click m p else p)"

definition menu_closed :: "menu \<Rightarrow> page \<Rightarrow> bool" where
  "menu_closed m p \<longleftrightarrow>
     display (elems p (navLinks m)) = ''none''
     \<and> aria_expanded (elems p (mobileMenu m)) = Some ''false''"

definition menu_open :: "menu \<Rightarrow> page \<Rightarrow> bool" where
  "menu_open m p \<longleftrightarrow>
     display (elems p (navLinks m)) = ''flex''
     \<and> aria_expanded (elems p (mobileMenu m)) = Some ''true''"

section \<open>Smooth scrolling\<close>

text \<open>
  The click listener that \<^verbatim>\<open>initSmoothScrolling\<close> attaches to every anchor whose
  \<^verbatim>\<open>href\<close> starts with \<^verbatim>\<open>#\<close>; \<open>targetId\<close> is what
  \<^verbatim>\<open>this.getAttribute('href')\<close> returns at the click. The header is looked up at
  every click, and reading \<^verbatim>\<open>offsetHeight\<close> of \<^verbatim>\<open>null\<close> throws. The target is
  given a \<^verbatim>\<open>tabindex\<close> before \<^verbatim>\<open>focus()\<close> is called on it.
\<close>

definition anchor_click :: "string \<Rightarrow> page \<Rightarrow> outcome" where
  "anchor_click targetId p0 =
     (let p = p0\<lparr>defaultPrevented := True\<rparr> in
      if targetId = ''#'' then Returned p
      else
        (case querySelector p targetId of
           Inl err \<Rightarrow> Threw err p
         | Inr None \<Rightarrow> Returned p
         | Inr (Some targetElement) \<Rightarrow>
             (case querySelector_tag p ''header'' of
                None \<Rightarrow> Threw TypeError p
              | Some header \<Rightarrow>
                  (let headerHeight = offsetHeight (elems p header);
                       targetPosition = offsetTop (elems p targetElement) - headerHeight;
                       p1 = p\<lparr>scrollRequests := scrollRequests p @ [targetPosition]\<rparr>;
                       p2 = p1\<lparr>history := history p1 @ [targetId]\<rparr>;
                       p3 = (if innerWidth p2 \<le> 768 then
                               (case querySelector_class p2 ''nav-links'' of
                                  None \<Rightarrow> p2
                                | Some nl \<Rightarrow>
                                    (case querySelector_class p2 ''mobile-menu'' of
                                       None \<Rightarrow> p2
                                     | Some mm \<Rightarrow>
                                         close_menu \<lparr>mobileMenu = mm, navLinks = nl\<rparr> p2))
                             else p2);
                       p4 = update_elem targetElement (\<lambda>e. e\<lparr>tabindex := Some ''-1''\<rparr>) p3;
                       p5 = focus targetElement p4;
                       p6 = update_elem targetElement (\<lambda>e. e\<lparr>tabindex := None\<rparr>) p5
                   in Returned p6))))"

text \<open>
  The anchor listener of the inline script (\<^verbatim>\<open>src/unnamed/part_000\<close>). It subtracts
  the constant 80, does not touch the session history, and closes over the panel that
  was looked up when the script started.
\<close>

definition inline_anchor_click :: "nat option \<Rightarrow> string \<Rightarrow> page \<Rightarrow> outcome" where
  "inline_anchor_click navLinks0 targetId p0 =
     (let p = p0\<lparr>defaultPrevented := True\<rparr> in
      if targetId = ''#'' then Returned p
      else
        (case querySelector p targetId of
           Inl err \<Rightarrow> Threw err p
         | Inr None \<Rightarrow> Returned p
         | Inr (Some targetElement) \<Rightarrow>
             (let p1 = p\<lparr>scrollRequests :=
                          scrollRequests p @ [offsetTop (elems p targetElement) - 80]\<rparr>
              in if innerWidth p1 \<le> 768 then
                   (case navLinks0 of
                      None \<Rightarrow> Threw TypeError p1
                    | Some nl \<Rightarrow> Returned (update_elem nl (\<lambda>e. e\<lparr>display := ''none''\<rparr>) p1))
                 else Returned p1)))"

section \<open>Testimonial rotator\<close>

text \<open>
  The closure of \<^verbatim>\<open>initTestimonialsSlider\<close>: the static node list and the index
  \<^verbatim>\<open>currentTestimonial\<close>. \<^verbatim>\<open>setAttribute('aria-hidden', i !== index)\<close> stores the
  boolean as the string \<^verbatim>\<open>true\<close> or \<^verbatim>\<open>false\<close>.
\<close>

record slider =
  testimonials :: "nat list"
  currentTestimonial :: nat

fun showTestimonial_forEach :: "nat \<Rightarrow> nat \<Rightarrow> nat list \<Rightarrow> page \<Rightarrow> page" where
  "showTestimonial_forEach index i [] p = p"
| "showTestimonial_forEach index i (testimonial # rest) p =
     showTestimonial_forEach index (Suc i) rest
       (update_elem testimonial
          (\<lambda>e. e\<lparr>aria_hidden := Some (if i \<noteq> index then ''true'' else ''false'')\<rparr>)
          (update_elem testimonial
             (\<lambda>e. e\<lparr>display := (if i = index then ''block'' else ''none'')\<rparr>) p))"

definition showTestimonial :: "nat \<Rightarrow> slider \<times> page \<Rightarrow> slider \<times> page" where
  "showTestimonial index = (\<lambda>(s, p).
     (s\<lparr>currentTestimonial := index\<rparr>, showTestimonial_forEach index 0 (testimonials s) p))"

text \<open>The callback of the interval timer.\<close>

definition timer_tick :: "slider \<times> page \<Rightarrow> slider \<times> page" where
  "timer_tick = (\<lambda>(s, p).
     (let nextIndex = (currentTestimonial s + 1) mod length (testimonials s)
      in showTestimonial nextIndex (s, p)))"

definition initTestimonialsSlider :: "page \<Rightarrow> slider option \<times> page" where
  "initTestimonialsSlider p =
     (let ts = querySelectorAll_class p ''testimonial-card'' in
      if length ts \<le> 1 then (None, p)
      else
        (let s = \<lparr>testimonials = ts, currentTestimonial = 0\<rparr>;
             p1 = p\<lparr>intervals := intervals p @ [5000]\<rparr>;
             (s', p2) = showTestimonial 0 (s, p1)
         in (Some s', p2)))"

section \<open>Scroll animations\<close>

definition animated_cards :: "page \<Rightarrow> nat list" where
  "animated_cards p =
     filter (\<lambda>n. ''feature-card'' \<in> set (classList (elems p n))
               \<or> ''pricing-card'' \<in> set (classList (elems p n))
               \<or> ''testimonial-card'' \<in> set (classList (elems p n))) (document p)"

definition reveal :: "nat \<Rightarrow> page \<Rightarrow> page" where
  "reveal element p =
     (let elementTop = rectTop (elems p element);
          elementVisible = 150
      in if elementTop < real_of_int (innerHeight p) - elementVisible then
           update_elem element (\<lambda>e. e\<lparr>transform := ''translateY(0)''\<rparr>)
             (update_elem element (\<lambda>e. e\<lparr>opacity := ''1''\<rparr>) p)
         else p)"

definition animateOnScroll :: "page \<Rightarrow> page" where
  "animateOnScroll p = fold reveal (animated_cards p) p"

definition set_initial_state :: "nat \<Rightarrow> page \<Rightarrow> page" where
  "set_initial_state element p =
     update_elem element (\<lambda>e. e\<lparr>transition := ''opacity 0.6s ease, transform 0.6s ease''\<rparr>)
       (update_elem element (\<lambda>e. e\<lparr>transform := ''translateY(20px)''\<rparr>)
          (update_elem element (\<lambda>e. e\<lparr>opacity := ''0''\<rparr>) p))"

definition initScrollAnimations :: "page \<Rightarrow> page" where
  "initScrollAnimations p = animateOnScroll (fold set_initial_state (animated_cards p) p)"

text \<open>
  Between two scroll events the browser lays the page out again: the set of attached
  elements, every bounding rectangle, the viewport height and the scroll offset may all
  change. A scroll event then runs \<^verbatim>\<open>animateOnScroll\<close> on the new layout.
\<close>

record layout =
  attached :: "nat list"
  tops :: "nat \<Rightarrow> real"
  viewportHeight :: int
  offsetY :: real

definition relayout :: "layout \<Rightarrow> page \<Rightarrow> page" where
  "relayout l p =
     p\<lparr>elems := (\<lambda>n. (elems p n)\<lparr>rectTop := tops l n\<rparr>),
       document := attached l,
       innerHeight := viewportHeight l,
       scrollY := offsetY l\<rparr>"

fun scroll_events :: "layout list \<Rightarrow> page \<Rightarrow> page" where
  "scroll_events [] p = p"
| "scroll_events (l # ls) p = scroll_events ls (animateOnScroll (relayout l p))"

definition revealed :: "element \<Rightarrow> bool" where
  "revealed e \<longleftrightarrow> opacity e = ''1'' \<and> transform e = ''translateY(0)''"

section \<open>Start-up\<close>

text \<open>
  \<^verbatim>\<open>init()\<close> calls the initialisers in a fixed order. Of those that run between the
  rotator and the scroll animations, none writes to an element: they register an
  observer, two listeners and the global \<^verbatim>\<open>validateForm\<close>. \<open>init_cards\<close> is
  therefore what \<^verbatim>\<open>init()\<close> does to the testimonial cards.

  An element is \<open>shown\<close> when its inline style neither removes it from the layout nor
  makes it fully transparent.
\<close>

definition init_cards :: "page \<Rightarrow> page" where
  "init_cards p = initScrollAnimations (snd (initTestimonialsSlider p))"

definition shown :: "element \<Rightarrow> bool" where
  "shown e \<longleftrightarrow> display e \<noteq> ''none'' \<and> opacity e \<noteq> ''0''"

definition page_of :: "outcome \<Rightarrow> page" where
  "page_of r = (case r of Returned p \<Rightarrow> p | Threw err p \<Rightarrow> p)"

section \<open>A landing page\<close>

text \<open>
  A small page with a header of height 60, the menu toggle and its panel (closed), a
  section with the id \<^verbatim>\<open>features\<close>, which \<^verbatim>\<open>#features\<close> selects, and two
  testimonial cards: the first with its top edge 700 pixels down an 800 pixel viewport,
  the second below the fold. The string \<^verbatim>\<open>#1abc\<close> is not a selector, because an
  identifier cannot start with a digit, and the lookup throws for it.
\<close>

definition blank_element :: element where
  "blank_element =
     \<lparr>tagName = ''div'', id_attr = [], focusable = False, classList = [], display = [],
      padding = [], boxShadow = [],
      opacity = [], transform = [], transition = [], aria_expanded = None,
      aria_hidden = None, tabindex = None, offsetTop = 0, offsetHeight = 0, rectTop = 0\<rparr>"

definition landing_elems :: "nat \<Rightarrow> element" where
  "landing_elems =
     (\<lambda>n. blank_element)
       (0 := blank_element\<lparr>tagName := ''header'', offsetHeight := 60\<rparr>,
        1 := blank_element\<lparr>tagName := ''button'', focusable := True,
                            classList := [''mobile-menu''], aria_expanded := Some ''false''\<rparr>,
        2 := blank_element\<lparr>tagName := ''ul'', classList := [''nav-links''],
                            display := ''none''\<rparr>,
        3 := blank_element\<lparr>tagName := ''section'', id_attr := ''features'',
                            offsetTop := 500, rectTop := 500\<rparr>,
        4 := blank_element\<lparr>classList := [''testimonial-card''], offsetTop := 700,
                            rectTop := 700\<rparr>,
        5 := blank_element\<lparr>classList := [''testimonial-card''], offsetTop := 1200,
                            rectTop := 1200\<rparr>)"

definition landing_page :: page where
  "landing_page =
     \<lparr>elems = landing_elems, document = [0, 1, 2, 3, 4, 5],
      querySelector = (\<lambda>s. if s = ''#features'' then Inr (Some 3)
                           else if s = ''#1abc'' then Inl SyntaxError else Inr None),
      contains = (\<lambda>a b. a = b), scrollY = 0, innerWidth = 1024, innerHeight = 800,
      scrollRequests = [], history = [], activeElement = None, intervals = [],
      defaultPrevented = False\<rparr>"

definition landing_menu :: menu where
  "landing_menu = \<lparr>mobileMenu = 1, navLinks = 2\<rparr>"

text \<open>The same page with one testimonial card only, and the same page without header.\<close>

definition single_card_page :: page where
  "single_card_page = landing_page\<lparr>document := [0, 1, 2, 3, 4]\<rparr>"

definition headless_page :: page where
  "headless_page = landing_page\<lparr>document := [1, 2, 3, 4, 5]\<rparr>"

text \<open>
  The same page with the section inside a positioned container, so that its
  \<^verbatim>\<open>offsetTop\<close> is the 10 pixels to the container's edge while it still lies 500
  pixels down the document; and the same page with the section's id changed to
  \<^verbatim>\<open>1abc\<close>.
\<close>

definition nested_target_page :: page where
  "nested_target_page =
     landing_page\<lparr>elems := (elems landing_page)(3 := (elems landing_page 3)\<lparr>offsetTop := 10\<rparr>)\<rparr>"

definition digit_id_page :: page where
  "digit_id_page =
     landing_page\<lparr>elems := (elems landing_page)(3 := (elems landing_page 3)\<lparr>id_attr := ''1abc''\<rparr>),
                  querySelector := (\<lambda>s. if s = ''#1abc'' then Inl SyntaxError else Inr None)\<rparr>"

text \<open>Two layouts: every element 100 pixels below the viewport top, and 1000 below.\<close>

definition scrolled_into_view :: layout where
  "scrolled_into_view =
     \<lparr>attached = [0, 1, 2, 3, 4, 5], tops = (\<lambda>n. 100), viewportHeight = 800, offsetY = 900\<rparr>"

definition scrolled_back_up :: layout where
  "scrolled_back_up =
     \<lparr>attached = [0, 1, 2, 3, 4, 5], tops = (\<lambda>n. 1000), viewportHeight = 800, offsetY = 0\<rparr>"

lemmas landing_defs = landing_page_def landing_elems_def blank_element_def landing_menu_def
  single_card_page_def headless_page_def nested_target_page_def digit_id_page_def

section \<open>Form validation\<close>

text \<open>
  \<^verbatim>\<open>validateForm\<close> reads and changes the tree around each required field: the next
  element sibling, the parent's child list, class lists. The model is a store of nodes
  with parent pointers and child lists. Child lists hold every child node, text nodes
  included (\<open>isElement\<close> tells them apart), so that \<^verbatim>\<open>nextSibling\<close> and
  \<^verbatim>\<open>nextElementSibling\<close> differ as they do in the DOM. \<open>fresh\<close> is the next
  unused reference, which \<^verbatim>\<open>document.createElement\<close> hands out.

  The \<^verbatim>\<open>value\<close> of a field is a JavaScript string, here the list of its UTF-16 code
  units, and \<^verbatim>\<open>trim()\<close> strips the code units that ECMAScript counts as white space
  or line terminators from both ends.
\<close>

record node =
  isElement :: bool
  localName :: string
  classNames :: "string list"
  required :: bool
  fieldValue :: "nat list"
  textContent :: string
  cssText :: string
  parentNode :: "nat option"
  childNodes :: "nat list"

record dom =
  nodes :: "nat \<Rightarrow> node"
  fresh :: nat


definition js_whitespace :: "nat \<Rightarrow> bool" where
  "js_whitespace c \<longleftrightarrow>
     c \<in> {9, 10, 11, 12, 13, 32, 160, 5760, 8232, 8233, 8239, 8287, 12288, 65279}
     \<or> (8192 \<le> c \<and> c \<le> 8202)"

definition trim :: "nat list \<Rightarrow> nat list" where
  "trim s = rev (dropWhile js_whitespace (rev (dropWhile js_whitespace s)))"

definition update_node :: "nat \<Rightarrow> (node \<Rightarrow> node) \<Rightarrow> dom \<Rightarrow> dom" where
  "update_node n f d = d\<lparr>nodes := (nodes d)(n := f (nodes d n))\<rparr>"

text \<open>The siblings after a node, and the child list with a node put before \<open>ref\<close>
  (at the end when \<open>ref\<close> is \<^verbatim>\<open>null\<close>).\<close>

fun following :: "nat \<Rightarrow> nat list \<Rightarrow> nat list" where
  "following n [] = []"
| "following n (c # cs) = (if c = n then cs else following n cs)"


definition following_siblings :: "dom \<Rightarrow> nat \<Rightarrow> nat list" where
  "following_siblings d n =
     (case parentNode (nodes d n) of
        None \<Rightarrow> []
      | Some p \<Rightarrow> following n (childNodes (nodes d p)))"

definition nextSibling :: "dom \<Rightarrow> nat \<Rightarrow> nat option" where
  "nextSibling d n = (case following_siblings d n of [] \<Rightarrow> None | m # _ \<Rightarrow> Some m)"

definition nextElementSibling :: "dom \<Rightarrow> nat \<Rightarrow> nat option" where
  "nextElementSibling d n = find (\<lambda>m. isElement (nodes d m)) (following_siblings d n)"

definition classList_contains :: "dom \<Rightarrow> nat \<Rightarrow> string \<Rightarrow> bool" where
  "classList_contains d n c \<longleftrightarrow> c \<in> set (classNames (nodes d n))"









definition required_field :: "dom \<Rightarrow> nat \<Rightarrow> bool" where
  "required_field d n \<longleftrightarrow>
     isElement (nodes d n)
     \<and> (localName (nodes d n) = ''input'' \<or> localName (nodes d n) = ''textarea'')
     \<and> required (nodes d n)"




subsection \<open>Empty, marked and clean fields\<close>

text \<open>
  A field is empty when its trimmed value is; it is \<open>marked\<close> when it carries the class
  \<^verbatim>\<open>error\<close> and its next element sibling is an error message, and \<open>clean\<close> when
  neither holds. \<open>set_values\<close> is the user editing the fields between two runs.
\<close>

definition empty_field :: "dom \<Rightarrow> nat \<Rightarrow> bool" where
  "empty_field d n \<longleftrightarrow> trim (fieldValue (nodes d n)) = []"

definition followed_by_message :: "dom \<Rightarrow> nat \<Rightarrow> bool" where
  "followed_by_message d n \<longleftrightarrow>
     (case nextElementSibling d n of
        None \<Rightarrow> False
      | Some s \<Rightarrow> classList_contains d s ''error-message'')"

definition marked :: "dom \<Rightarrow> nat \<Rightarrow> bool" where
  "marked d n \<longleftrightarrow> classList_contains d n ''error'' \<and> followed_by_message d n"

definition clean :: "dom \<Rightarrow> nat \<Rightarrow> bool" where
  "clean d n \<longleftrightarrow> \<not> classList_contains d n ''error'' \<and> \<not> followed_by_message d n"

definition set_values :: "(nat \<Rightarrow> nat list) \<Rightarrow> dom \<Rightarrow> dom" where
  "set_values f d = d\<lparr>nodes := (\<lambda>n. (nodes d n)\<lparr>fieldValue := f n\<rparr>)\<rparr>"

text \<open>
  A well-formed tree: child lists and parent pointers agree, no child occurs twice,
  every reference in use is allocated, and a parent has a smaller reference than its
  children (as when references are handed out in document order, and as
  \<^verbatim>\<open>createElement\<close> followed by \<^verbatim>\<open>insertBefore\<close> keeps it). References that are
  not allocated yet denote no field.

  \<open>messages_ok\<close> is a condition on the form that is validated: none of its required
  fields is itself an error message, and none of them is followed by two error messages
  in a row. Nothing is asked of the rest of the document.
\<close>

definition wf_dom :: "dom \<Rightarrow> bool" where
  "wf_dom d \<longleftrightarrow>
     (\<forall>p c. c \<in> set (childNodes (nodes d p)) \<longrightarrow>
        parentNode (nodes d c) = Some p \<and> p < c \<and> c < fresh d)
     \<and> (\<forall>n p. parentNode (nodes d n) = Some p \<longrightarrow> n \<in> set (childNodes (nodes d p)))
     \<and> (\<forall>p. distinct (childNodes (nodes d p)))
     \<and> (\<forall>n. fresh d \<le> n \<longrightarrow> \<not> required_field d n)"


subsection \<open>How one step changes the tree\<close>

text \<open>
  \<open>fields_ok F\<close> is what the loop keeps true of the fields \<open>F\<close> it was started on.
  \<open>same_tree\<close>: only class names other than \<^verbatim>\<open>error-message\<close>, values and texts
  differ. \<open>inserted_after\<close> and \<open>removed\<close> describe the tree after an insertion
  behind \<open>g\<close> and after the removal of \<open>s\<close>. \<open>step_ok\<close> and \<open>run_ok\<close> collect what
  one callback and one whole loop guarantee.
\<close>

abbreviation "elem d \<equiv> (\<lambda>m. isElement (nodes d m))"

abbreviation "is_msg d n \<equiv> classList_contains d n ''error-message''"

definition fields_ok :: "nat set \<Rightarrow> dom \<Rightarrow> bool" where
  "fields_ok F d \<longleftrightarrow>
     wf_dom d
     \<and> (\<forall>n \<in> F. required_field d n \<and> \<not> is_msg d n)
     \<and> (\<forall>n \<in> F. \<forall>s. nextElementSibling d n = Some s \<and> is_msg d s
            \<longrightarrow> \<not> followed_by_message d s)"

definition same_tree :: "dom \<Rightarrow> dom \<Rightarrow> bool" where
  "same_tree d d' \<longleftrightarrow>
     fresh d' = fresh d
     \<and> (\<forall>n. isElement (nodes d' n) = isElement (nodes d n)
            \<and> localName (nodes d' n) = localName (nodes d n)
            \<and> required (nodes d' n) = required (nodes d n)
            \<and> parentNode (nodes d' n) = parentNode (nodes d n)
            \<and> childNodes (nodes d' n) = childNodes (nodes d n)
            \<and> (''error-message'' \<in> set (classNames (nodes d' n)))
                = (''error-message'' \<in> set (classNames (nodes d n))))"





subsection \<open>Four forms\<close>








section \<open>Frame lemmas\<close>

lemma update_elem_fields [simp]:
  "elems (update_elem n f p) = (elems p)(n := f (elems p n))"
  "document (update_elem n f p) = document p"
  "querySelector (update_elem n f p) = querySelector p"
  "contains (update_elem n f p) = contains p"
  "scrollY (update_elem n f p) = scrollY p"
  "innerWidth (update_elem n f p) = innerWidth p"
  "innerHeight (update_elem n f p) = innerHeight p"
  "scrollRequests (update_elem n f p) = scrollRequests p"
  "history (update_elem n f p) = history p"
  "activeElement (update_elem n f p) = activeElement p"
  "intervals (update_elem n f p) = intervals p"
  "defaultPrevented (update_elem n f p) = defaultPrevented p"
  "page.more (update_elem n f p) = page.more p"
  by (simp_all add: update_elem_def)

lemma focus_fields [simp]:
  "elems (focus n p) = elems p"
  "document (focus n p) = document p"
  "querySelector (focus n p) = querySelector p"
  "contains (focus n p) = contains p"
  "scrollY (focus n p) = scrollY p"
  "innerWidth (focus n p) = innerWidth p"
  "innerHeight (focus n p) = innerHeight p"
  "scrollRequests (focus n p) = scrollRequests p"
  "history (focus n p) = history p"
  "intervals (focus n p) = intervals p"
  "defaultPrevented (focus n p) = defaultPrevented p"
  "page.more (focus n p) = page.more p"
  by (simp_all add: focus_def)

lemma close_menu_fields [simp]:
  "document (close_menu m p) = document p"
  "querySelector (close_menu m p) = querySelector p"
  "contains (close_menu m p) = contains p"
  "scrollY (close_menu m p) = scrollY p"
  "innerWidth (close_menu m p) = innerWidth p"
  "innerHeight (close_menu m p) = innerHeight p"
  "scrollRequests (close_menu m p) = scrollRequests p"
  "history (close_menu m p) = history p"
  "activeElement (close_menu m p) = activeElement p"
  "intervals (close_menu m p) = intervals p"
  "defaultPrevented (close_menu m p) = defaultPrevented p"
  "page.more (close_menu m p) = page.more p"
  by (simp_all add: close_menu_def)

lemma open_menu_fields [simp]:
  "document (open_menu m p) = document p"
  "querySelector (open_menu m p) = querySelector p"
  "contains (open_menu m p) = contains p"
  "scrollY (open_menu m p) = scrollY p"
  "innerWidth (open_menu m p) = innerWidth p"
  "innerHeight (open_menu m p) = innerHeight p"
  "scrollRequests (open_menu m p) = scrollRequests p"
  "history (open_menu m p) = history p"
  "activeElement (open_menu m p) = activeElement p"
  "intervals (open_menu m p) = intervals p"
  "defaultPrevented (open_menu m p) = defaultPrevented p"
  "page.more (open_menu m p) = page.more p"
  by (simp_all add: open_menu_def)

lemma close_menu_state [simp]:
  "display (elems (close_menu m p) (navLinks m)) = ''none''"
  "aria_expanded (elems (close_menu m p) (mobileMenu m)) = Some ''false''"
  by (simp_all add: close_menu_def)

lemma open_menu_state [simp]:
  "display (elems (open_menu m p) (navLinks m)) = ''flex''"
  "aria_expanded (elems (open_menu m p) (mobileMenu m)) = Some ''true''"
  by (simp_all add: open_menu_def)

lemma close_open_closed:
  assumes "menu_closed m p"
  shows "close_menu m (open_menu m p) = p"
proof (rule page.equality)
  show "elems (close_menu m (open_menu m p)) = elems p"
    using assms by (auto simp add: fun_eq_iff close_menu_def open_menu_def menu_closed_def)
qed simp_all

lemma open_close_open:
  assumes "menu_open m p"
  shows "open_menu m (close_menu m p) = p"
proof (rule page.equality)
  show "elems (open_menu m (close_menu m p)) = elems p"
    using assms by (auto simp add: fun_eq_iff close_menu_def open_menu_def menu_open_def)
qed simp_all

lemma click_closed: "menu_closed m p \<Longrightarrow> mobileMenu_click m p = open_menu m p"
  by (simp add: mobileMenu_click_def menu_closed_def)

lemma click_open: "menu_open m p \<Longrightarrow> mobileMenu_click m p = close_menu m p"
  by (simp add: mobileMenu_click_def menu_open_def)

lemma dispatch_in_toggle:
  "contains p (mobileMenu m) t \<Longrightarrow> dispatch_click m t p = mobileMenu_click m p"
  by (simp add: dispatch_click_def document_click_def mobileMenu_click_def)

section \<open>The mobile menu\<close>

text \<open>
  C5. Starting from a menu that is not open, a click on the toggle opens it (panel
  display \<^verbatim>\<open>flex\<close>, \<^verbatim>\<open>aria-expanded\<close> \<^verbatim>\<open>true\<close>) and a second click closes it
  (display \<^verbatim>\<open>none\<close>, \<^verbatim>\<open>aria-expanded\<close> \<^verbatim>\<open>false\<close>). Starting from the closed
  menu, the page after the two clicks is the very page the first click started from.
  This holds for the click listener of the toggle alone and for the whole dispatch, in
  which the click also reaches the listener of the document.
\<close>

theorem toggle_twice_returns_closed:
  assumes "display (elems p (navLinks m)) \<noteq> ''flex''"
    and "contains p (mobileMenu m) t1" and "contains p (mobileMenu m) t2"
  shows "menu_open m (dispatch_click m t1 p)
       \<and> menu_closed m (dispatch_click m t2 (dispatch_click m t1 p))
       \<and> menu_closed m (mobileMenu_click m (mobileMenu_click m p))
       \<and> (menu_closed m p \<longrightarrow>
            dispatch_click m t2 (dispatch_click m t1 p) = p
            \<and> mobileMenu_click m (mobileMenu_click m p) = p)"
proof -
  have c: "mobileMenu_click m p = open_menu m p"
    using assms(1) by (simp add: mobileMenu_click_def)
  have 1: "dispatch_click m t1 p = open_menu m p"
    using assms(2) c by (simp add: dispatch_in_toggle)
  have o: "menu_open m (open_menu m p)"
    by (simp add: menu_open_def)
  have 2: "dispatch_click m t2 (open_menu m p) = close_menu m (open_menu m p)"
    using assms(3) o by (simp add: dispatch_in_toggle click_open)
  have 3: "mobileMenu_click m (mobileMenu_click m p) = close_menu m (open_menu m p)"
    using c o by (simp add: click_open)
  have 4: "menu_closed m (close_menu m (open_menu m p))"
    by (simp add: menu_closed_def)
  from 1 2 3 4 o show ?thesis
    by (simp add: close_open_closed)
qed

theorem toggle_twice_returns_closed_witness:
  "menu_closed landing_menu landing_page
   \<and> contains landing_page (mobileMenu landing_menu) 1
   \<and> menu_open landing_menu (dispatch_click landing_menu 1 landing_page)
   \<and> dispatch_click landing_menu 1 (dispatch_click landing_menu 1 landing_page) = landing_page"
proof -
  have c: "menu_closed landing_menu landing_page"
    by (simp add: menu_closed_def landing_defs)
  have t: "contains landing_page (mobileMenu landing_menu) 1"
    by (simp add: landing_defs)
  have d: "display (elems landing_page (navLinks landing_menu)) \<noteq> ''flex''"
    by (simp add: landing_defs)
  from toggle_twice_returns_closed[OF d t t] c t show ?thesis by simp
qed

text \<open>From the open menu two clicks lead back to the open menu as well.\<close>

lemma toggle_involution_open:
  assumes "menu_open m p"
  shows "mobileMenu_click m (mobileMenu_click m p) = p"
proof -
  have c: "menu_closed m (close_menu m p)"
    by (simp add: menu_closed_def)
  show ?thesis
    using assms c by (simp add: click_open click_closed open_close_open)
qed

text \<open>
  C9. After the click listener of the toggle, after the document's click listener for a
  click outside both elements, and after the keydown listener for Escape with the panel
  open, \<^verbatim>\<open>aria-expanded\<close> is \<^verbatim>\<open>true\<close> exactly when the panel's display is
  \<^verbatim>\<open>flex\<close>.
\<close>

theorem aria_matches_display_after_handler:
  assumes "q = mobileMenu_click m p
         \<or> (q = document_click m t p
              \<and> \<not> contains p (navLinks m) t \<and> \<not> contains p (mobileMenu m) t)
         \<or> (q = document_keydown m ''Escape'' p \<and> display (elems p (navLinks m)) = ''flex'')"
  shows "aria_expanded (elems q (mobileMenu m)) = Some ''true''
           \<longleftrightarrow> display (elems q (navLinks m)) = ''flex''"
  using assms
  by (auto simp add: mobileMenu_click_def document_click_def document_keydown_def)

theorem aria_matches_display_after_handler_witness:
  "display (elems (mobileMenu_click landing_menu landing_page) (navLinks landing_menu)) = ''flex''
   \<and> aria_expanded (elems (mobileMenu_click landing_menu landing_page) (mobileMenu landing_menu))
       = Some ''true''"
proof -
  have "menu_closed landing_menu landing_page"
    by (simp add: menu_closed_def landing_defs)
  then have "display (elems (mobileMenu_click landing_menu landing_page) (navLinks landing_menu)) = ''flex''"
    by (simp add: click_closed)
  with aria_matches_display_after_handler[of "mobileMenu_click landing_menu landing_page"
      landing_menu landing_page]
  show ?thesis by simp
qed

section \<open>The sticky header\<close>

text \<open>
  C7. On every scroll event the listener of the sticky header sets the header's padding
  to \<^verbatim>\<open>10px 0\<close> when the vertical scroll offset exceeds 100 pixels and to
  \<^verbatim>\<open>20px 0\<close> otherwise; running the listener again at the same offset returns the very
  same page: the same values are reassigned and nothing else changes.
\<close>

theorem sticky_header_padding_idempotent:
  "\<exists>p'. stickyHeader_scroll (Some h) p = Returned p'
      \<and> padding (elems p' h) = (if scrollY p > 100 then ''10px 0'' else ''20px 0'')
      \<and> stickyHeader_scroll (Some h) p' = Returned p'"
  by (simp add: stickyHeader_scroll_def update_elem_def)

section \<open>Smooth scrolling\<close>

text \<open>
  C6, as the code has it. A click on an anchor whose \<^verbatim>\<open>href\<close> is \<^verbatim>\<open>#\<close>, or for
  which the lookup finds no element, returns normally and leaves the page as it was,
  apart from the event's \<^verbatim>\<open>defaultPrevented\<close> flag: no scroll request, no history
  entry, no change of focus, no change to any element. When the \<^verbatim>\<open>href\<close> is not a
  selector the lookup throws, and the listener with it; the page is then as the click
  found it as well, apart from that flag.
\<close>

theorem missing_target_is_noop:
  "(targetId = ''#'' \<or> querySelector p targetId = Inr None
      \<longrightarrow> anchor_click targetId p = Returned (p\<lparr>defaultPrevented := True\<rparr>))
   \<and> (targetId \<noteq> ''#'' \<and> querySelector p targetId = Inl err
      \<longrightarrow> anchor_click targetId p = Threw err (p\<lparr>defaultPrevented := True\<rparr>))"
  by (auto simp add: anchor_click_def Let_def)

theorem missing_target_is_noop_witness:
  "querySelector landing_page ''#nonexistent'' = Inr None
   \<and> anchor_click ''#nonexistent'' landing_page
       = Returned (landing_page\<lparr>defaultPrevented := True\<rparr>)
   \<and> querySelector headless_page ''#1abc'' = Inl SyntaxError
   \<and> anchor_click ''#1abc'' headless_page
       = Threw SyntaxError (headless_page\<lparr>defaultPrevented := True\<rparr>)"
proof -
  have h: "querySelector landing_page ''#nonexistent'' = Inr None"
    and e: "querySelector headless_page ''#1abc'' = Inl SyntaxError"
    by (simp_all add: landing_defs)
  have ne: "''#1abc'' \<noteq> ''#''" by simp
  from missing_target_is_noop[of "''#nonexistent''" landing_page]
    missing_target_is_noop[of "''#1abc''" headless_page SyntaxError] h e ne
  show ?thesis by simp
qed

text \<open>
  C6 as stated fails: no element of the landing page has the id \<^verbatim>\<open>1abc\<close>, and a
  click on an anchor with the \<^verbatim>\<open>href\<close> \<^verbatim>\<open>#1abc\<close> throws a \<^verbatim>\<open>SyntaxError\<close>.
\<close>

theorem missing_target_counterexample:
  "element_with_id landing_page ''1abc'' = None
   \<and> querySelector landing_page ''#1abc'' = Inl SyntaxError
   \<and> anchor_click ''#1abc'' landing_page
       = Threw SyntaxError (landing_page\<lparr>defaultPrevented := True\<rparr>)"
  by (simp add: anchor_click_def element_with_id_def landing_defs)

text \<open>
  C10. When the target of a clicked anchor exists, the listener reads the header's height
  before anything else. Without a header the read throws a \<^verbatim>\<open>TypeError\<close> and the page
  is as the click found it (apart from \<^verbatim>\<open>defaultPrevented\<close>): no scroll request, no
  history entry, no menu close, no focus transfer. With a header the listener returns and
  has requested a scroll.
\<close>

theorem header_read_before_scroll:
  assumes "targetId \<noteq> ''#''" and "querySelector p targetId = Inr (Some t)"
  shows "(querySelector_tag p ''header'' = None
            \<longrightarrow> anchor_click targetId p = Threw TypeError (p\<lparr>defaultPrevented := True\<rparr>))
       \<and> (querySelector_tag p ''header'' \<noteq> None
            \<longrightarrow> (\<exists>p'. anchor_click targetId p = Returned p'
                   \<and> scrollRequests p' \<noteq> scrollRequests p))"
  using assms
  by (auto simp add: anchor_click_def querySelector_tag_def Let_def split: option.splits)

theorem header_read_before_scroll_witness:
  "querySelector headless_page ''#features'' = Inr (Some 3)
   \<and> querySelector_tag headless_page ''header'' = None
   \<and> anchor_click ''#features'' headless_page
       = Threw TypeError (headless_page\<lparr>defaultPrevented := True\<rparr>)
   \<and> querySelector_tag landing_page ''header'' = Some 0
   \<and> (\<exists>p'. anchor_click ''#features'' landing_page = Returned p')"
proof -
  have q: "querySelector headless_page ''#features'' = Inr (Some 3)"
    and q': "querySelector landing_page ''#features'' = Inr (Some 3)"
    by (simp_all add: landing_defs)
  have n: "querySelector_tag headless_page ''header'' = None"
    and s: "querySelector_tag landing_page ''header'' = Some 0"
    by (simp_all add: querySelector_tag_def landing_defs)
  have ne: "''#features'' \<noteq> ''#''" by simp
  from header_read_before_scroll[OF ne q] header_read_before_scroll[OF ne q'] q n s
  show ?thesis by auto
qed

lemma anchor_click_log:
  assumes "targetId \<noteq> ''#''" and "querySelector p targetId = Inr (Some t)"
    and "querySelector_tag p ''header'' = Some h"
  shows "\<exists>p'. anchor_click targetId p = Returned p'
          \<and> scrollRequests p' =
              scrollRequests p @ [offsetTop (elems p t) - offsetHeight (elems p h)]
          \<and> history p' = history p @ [targetId]
          \<and> activeElement p' = Some t"
  using assms
  by (auto simp add: anchor_click_def querySelector_tag_def querySelector_class_def focus_def
        Let_def split: option.splits)

lemma inline_anchor_click_log:
  assumes "targetId \<noteq> ''#''" and "querySelector p targetId = Inr (Some t)"
  shows "scrollRequests (page_of (inline_anchor_click nl targetId p)) =
              scrollRequests p @ [offsetTop (elems p t) - 80]
          \<and> history (page_of (inline_anchor_click nl targetId p)) = history p"
  using assms
  by (auto simp add: inline_anchor_click_def page_of_def Let_def split: option.splits)

text \<open>
  C3, as the code has it. For a click on an anchor for whose \<^verbatim>\<open>href\<close> the lookup
  returns an element, on a page with a header, the listener of \<^verbatim>\<open>script.js\<close>
  requests the scroll position \<^verbatim>\<open>offsetTop\<close> of the target minus the
  \<^verbatim>\<open>offsetHeight\<close> the header has at that click, and pushes the \<^verbatim>\<open>href\<close> onto
  the session history. The listener of the inline script requests \<^verbatim>\<open>offsetTop\<close>
  minus the constant 80 and pushes nothing.
\<close>

theorem scroll_offset_measured_at_click:
  assumes "targetId \<noteq> ''#''" and "querySelector p targetId = Inr (Some t)"
  shows "(\<forall>h. querySelector_tag p ''header'' = Some h \<longrightarrow>
            (\<exists>p'. anchor_click targetId p = Returned p'
               \<and> scrollRequests p' =
                   scrollRequests p @ [offsetTop (elems p t) - offsetHeight (elems p h)]
               \<and> history p' = history p @ [targetId]))
       \<and> scrollRequests (page_of (inline_anchor_click nl targetId p)) =
             scrollRequests p @ [offsetTop (elems p t) - 80]
       \<and> history (page_of (inline_anchor_click nl targetId p)) = history p"
  using anchor_click_log[OF assms] inline_anchor_click_log[OF assms]
  by blast

theorem scroll_offset_measured_at_click_witness:
  "querySelector landing_page ''#features'' = Inr (Some 3)
   \<and> querySelector_tag landing_page ''header'' = Some 0
   \<and> (\<exists>p'. anchor_click ''#features'' landing_page = Returned p'
         \<and> scrollRequests p' = [440] \<and> history p' = [''#features''])"
proof -
  have q: "querySelector landing_page ''#features'' = Inr (Some 3)"
    by (simp add: landing_defs)
  have h: "querySelector_tag landing_page ''header'' = Some 0"
    by (simp add: querySelector_tag_def landing_defs)
  have ne: "''#features'' \<noteq> ''#''" by simp
  have v: "offsetTop (elems landing_page 3) - offsetHeight (elems landing_page 0) = 440"
    "scrollRequests landing_page = []" "history landing_page = []"
    by (simp_all add: landing_defs)
  from scroll_offset_measured_at_click[OF ne q] h v q show ?thesis by simp
qed

text \<open>
  C3 as stated fails in four ways. The inline listener requests 420 for a target at 500
  and a header of height 60, not 440, and leaves the session history empty. The listener
  of \<^verbatim>\<open>script.js\<close> throws on the page without header, where the element that
  \<^verbatim>\<open>#features\<close> names exists; it throws on the page whose section has the id
  \<^verbatim>\<open>1abc\<close>, which the \<^verbatim>\<open>href\<close> \<^verbatim>\<open>#1abc\<close> names; and for the section inside
  a positioned container it requests -50, although the section lies 500 pixels down the
  document and the header is 60 pixels high.
\<close>

theorem scroll_offset_counterexample:
  "querySelector landing_page ''#features'' = Inr (Some 3)
   \<and> querySelector_tag landing_page ''header'' = Some 0
   \<and> offsetTop (elems landing_page 3) - offsetHeight (elems landing_page 0) = 440
   \<and> inline_anchor_click (Some 2) ''#features'' landing_page
       = Returned (landing_page\<lparr>scrollRequests := [420], defaultPrevented := True\<rparr>)
   \<and> scrollRequests (page_of (inline_anchor_click (Some 2) ''#features'' landing_page))
       \<noteq> [offsetTop (elems landing_page 3) - offsetHeight (elems landing_page 0)]
   \<and> history (page_of (inline_anchor_click (Some 2) ''#features'' landing_page)) = []
   \<and> history (page_of (inline_anchor_click (Some 2) ''#features'' landing_page))
       \<noteq> [''#features'']
   \<and> element_with_id headless_page ''features'' = Some 3
   \<and> anchor_click ''#features'' headless_page
       = Threw TypeError (headless_page\<lparr>defaultPrevented := True\<rparr>)
   \<and> element_with_id digit_id_page ''1abc'' = Some 3
   \<and> anchor_click ''#1abc'' digit_id_page
       = Threw SyntaxError (digit_id_page\<lparr>defaultPrevented := True\<rparr>)
   \<and> element_with_id nested_target_page ''features'' = Some 3
   \<and> document_top nested_target_page 3 = 500
   \<and> offsetTop (elems nested_target_page 3) = 10
   \<and> offsetHeight (elems nested_target_page 0) = 60
   \<and> scrollRequests (page_of (anchor_click ''#features'' nested_target_page)) = [- 50]
   \<and> history (page_of (anchor_click ''#features'' nested_target_page)) = [''#features'']"
proof -
  have inline: "inline_anchor_click (Some 2) ''#features'' landing_page
       = Returned (landing_page\<lparr>scrollRequests := [420], defaultPrevented := True\<rparr>)"
    by (simp add: inline_anchor_click_def landing_defs)
  have ids: "element_with_id headless_page ''features'' = Some 3"
    "element_with_id digit_id_page ''1abc'' = Some 3"
    "element_with_id nested_target_page ''features'' = Some 3"
    by (simp_all add: element_with_id_def landing_defs)
  have headless: "anchor_click ''#features'' headless_page
       = Threw TypeError (headless_page\<lparr>defaultPrevented := True\<rparr>)"
    by (simp add: anchor_click_def querySelector_tag_def landing_defs)
  have digit: "anchor_click ''#1abc'' digit_id_page
       = Threw SyntaxError (digit_id_page\<lparr>defaultPrevented := True\<rparr>)"
    by (simp add: anchor_click_def landing_defs)
  have q: "querySelector nested_target_page ''#features'' = Inr (Some 3)"
    and h: "querySelector_tag nested_target_page ''header'' = Some 0"
    by (simp_all add: querySelector_tag_def landing_defs)
  have ne: "''#features'' \<noteq> ''#''" by simp
  from anchor_click_log[OF ne q h]
  have nested: "scrollRequests (page_of (anchor_click ''#features'' nested_target_page)) = [- 50]"
    "history (page_of (anchor_click ''#features'' nested_target_page)) = [''#features'']"
    by (auto simp add: page_of_def landing_defs)
  have top: "document_top nested_target_page 3 = 500"
    "offsetTop (elems nested_target_page 3) = 10"
    "offsetHeight (elems nested_target_page 0) = 60"
    by (simp_all add: document_top_def landing_defs)
  from inline ids headless digit nested top show ?thesis
    by (simp add: querySelector_tag_def page_of_def landing_defs)
qed

section \<open>The testimonial rotator\<close>

lemma forEach_fields [simp]:
  "document (showTestimonial_forEach index i ts p) = document p"
  "intervals (showTestimonial_forEach index i ts p) = intervals p"
  by (induction ts arbitrary: i p) simp_all

lemma forEach_other:
  "n \<notin> set ts \<Longrightarrow> elems (showTestimonial_forEach index i ts p) n = elems p n"
  by (induction ts arbitrary: i p) auto

lemma forEach_display:
  "distinct ts \<Longrightarrow> j < length ts \<Longrightarrow>
     display (elems (showTestimonial_forEach index i ts p) (ts ! j))
       = (if i + j = index then ''block'' else ''none'')"
proof (induction ts arbitrary: i j p)
  case Nil
  then show ?case by simp
next
  case (Cons t ts)
  show ?case
  proof (cases j)
    case 0
    with Cons.prems show ?thesis by (simp add: forEach_other)
  next
    case (Suc j')
    with Cons.prems have "distinct ts" "j' < length ts" by simp_all
    from Cons.IH[OF this] Suc show ?thesis by simp
  qed
qed

lemma showTestimonial_shows:
  assumes "distinct (testimonials s)" and "j < length (testimonials s)"
  shows "display (elems (snd (showTestimonial index (s, p))) (testimonials s ! j))
           = (if j = index then ''block'' else ''none'')"
    and "currentTestimonial (fst (showTestimonial index (s, p))) = index"
    and "testimonials (fst (showTestimonial index (s, p))) = testimonials s"
  using assms forEach_display[of "testimonials s" j index 0 p]
  by (simp_all add: showTestimonial_def)

lemma showTestimonial_fst [simp]:
  "currentTestimonial (fst (showTestimonial index sp)) = index"
  "testimonials (fst (showTestimonial index sp)) = testimonials (fst sp)"
  by (simp_all add: showTestimonial_def split_beta)

lemma timer_tick_fst [simp]:
  "currentTestimonial (fst (timer_tick sp))
     = (currentTestimonial (fst sp) + 1) mod length (testimonials (fst sp))"
  "testimonials (fst (timer_tick sp)) = testimonials (fst sp)"
  by (simp_all add: timer_tick_def split_beta Let_def)

lemma timer_tick_shows:
  assumes "distinct (testimonials (fst sp))" and "j < length (testimonials (fst sp))"
  shows "display (elems (snd (timer_tick sp)) (testimonials (fst sp) ! j))
           = (if j = (currentTestimonial (fst sp) + 1) mod length (testimonials (fst sp))
              then ''block'' else ''none'')"
  using showTestimonial_shows(1)[OF assms, of _ "snd sp"]
  by (simp add: timer_tick_def split_beta Let_def)

lemma ticks_fst:
  "testimonials (fst ((timer_tick ^^ k) sp)) = testimonials (fst sp)"
  by (induction k) simp_all

lemma ticks_current:
  assumes "currentTestimonial (fst sp) = 0"
  shows "currentTestimonial (fst ((timer_tick ^^ k) sp)) = k mod length (testimonials (fst sp))"
proof (induction k)
  case 0
  with assms show ?case by simp
next
  case (Suc k)
  then show ?case by (simp add: ticks_fst mod_Suc_eq)
qed

lemma init_slider_result:
  assumes "2 \<le> length (querySelectorAll_class p ''testimonial-card'')"
  shows "initTestimonialsSlider p =
           (Some (fst (showTestimonial 0
                    (\<lparr>testimonials = querySelectorAll_class p ''testimonial-card'',
                      currentTestimonial = 0\<rparr>, p\<lparr>intervals := intervals p @ [5000]\<rparr>))),
            snd (showTestimonial 0
                    (\<lparr>testimonials = querySelectorAll_class p ''testimonial-card'',
                      currentTestimonial = 0\<rparr>, p\<lparr>intervals := intervals p @ [5000]\<rparr>)))"
  using assms by (simp add: initTestimonialsSlider_def Let_def split_beta)

lemma showTestimonial_intervals [simp]:
  "intervals (snd (showTestimonial index sp)) = intervals (snd sp)"
  by (simp add: showTestimonial_def split_beta)

lemma ticks_display:
  assumes "distinct (testimonials (fst sp))" and "currentTestimonial (fst sp) = 0"
    and "\<forall>j<length (testimonials (fst sp)).
           display (elems (snd sp) (testimonials (fst sp) ! j)) = (if j = 0 then ''block'' else ''none'')"
    and "0 < length (testimonials (fst sp))"
    and "j < length (testimonials (fst sp))"
  shows "display (elems (snd ((timer_tick ^^ k) sp)) (testimonials (fst sp) ! j))
           = (if j = k mod length (testimonials (fst sp)) then ''block'' else ''none'')"
proof (cases k)
  case 0
  with assms show ?thesis by simp
next
  case (Suc k')
  let ?sp = "(timer_tick ^^ k') sp"
  have t: "testimonials (fst ?sp) = testimonials (fst sp)" by (rule ticks_fst)
  have c: "currentTestimonial (fst ?sp) = k' mod length (testimonials (fst sp))"
    using assms(2) by (rule ticks_current)
  from timer_tick_shows[of ?sp j] assms(1,5) t c Suc show ?thesis
    by (simp add: mod_Suc_eq)
qed

text \<open>
  C1. With at least two testimonial cards, \<^verbatim>\<open>initTestimonialsSlider\<close> registers the
  5000 ms timer and shows card 0. After \<open>k\<close> ticks the card at index \<open>k mod N\<close> has
  display \<^verbatim>\<open>block\<close> and every other card has display \<^verbatim>\<open>none\<close>. A tick from any
  page and any current index \<open>c\<close> leaves exactly the card at \<open>(c + 1) mod N\<close> with
  display \<^verbatim>\<open>block\<close> and makes that index the current one.
\<close>

theorem rotator_exactly_one_visible:
  assumes "distinct (document p)"
    and "ts = querySelectorAll_class p ''testimonial-card''"
    and "2 \<le> length ts"
  shows "\<exists>s0 p0. initTestimonialsSlider p = (Some s0, p0)
           \<and> intervals p0 = intervals p @ [5000]
           \<and> (\<forall>k. currentTestimonial (fst ((timer_tick ^^ k) (s0, p0))) = k mod length ts
                 \<and> (\<forall>j<length ts.
                       display (elems (snd ((timer_tick ^^ k) (s0, p0))) (ts ! j))
                         = (if j = k mod length ts then ''block'' else ''none'')))
           \<and> (\<forall>s q. testimonials s = ts \<longrightarrow>
                 currentTestimonial (fst (timer_tick (s, q)))
                   = (currentTestimonial s + 1) mod length ts
                 \<and> (\<forall>j<length ts.
                       display (elems (snd (timer_tick (s, q))) (ts ! j))
                         = (if j = (currentTestimonial s + 1) mod length ts
                            then ''block'' else ''none'')))"
proof -
  let ?s = "\<lparr>testimonials = ts, currentTestimonial = 0\<rparr>"
  let ?pt = "p\<lparr>intervals := intervals p @ [5000]\<rparr>"
  let ?si = "fst (showTestimonial 0 (?s, ?pt))"
  let ?pi = "snd (showTestimonial 0 (?s, ?pt))"
  have d: "distinct ts"
    using assms(1,2) by (simp add: querySelectorAll_class_def)
  have i: "initTestimonialsSlider p = (Some ?si, ?pi)"
    using assms(3) unfolding assms(2) by (rule init_slider_result)
  have t0: "testimonials ?si = ts" and c0: "currentTestimonial ?si = 0"
    by simp_all
  have d0: "\<forall>j<length ts. display (elems ?pi (ts ! j)) = (if j = 0 then ''block'' else ''none'')"
    using d showTestimonial_shows(1)[of ?s _ 0 ?pt] by simp
  have k: "currentTestimonial (fst ((timer_tick ^^ k) (?si, ?pi))) = k mod length ts
           \<and> (\<forall>j<length ts.
                 display (elems (snd ((timer_tick ^^ k) (?si, ?pi))) (ts ! j))
                   = (if j = k mod length ts then ''block'' else ''none''))" for k
  proof -
    have ne: "0 < length ts" using assms(3) by (cases ts) simp_all
    have "display (elems (snd ((timer_tick ^^ k) (?si, ?pi))) (ts ! j))
            = (if j = k mod length ts then ''block'' else ''none'')" if "j < length ts" for j
      using ticks_display[of "(?si, ?pi)" j k] d d0 ne that by simp
    moreover have "currentTestimonial (fst ((timer_tick ^^ k) (?si, ?pi))) = k mod length ts"
      using ticks_current[of "(?si, ?pi)" k] by simp
    ultimately show ?thesis by blast
  qed
  have g: "currentTestimonial (fst (timer_tick (s, q)))
                   = (currentTestimonial s + 1) mod length ts
                 \<and> (\<forall>j<length ts.
                       display (elems (snd (timer_tick (s, q))) (ts ! j))
                         = (if j = (currentTestimonial s + 1) mod length ts
                            then ''block'' else ''none''))" if "testimonials s = ts" for s q
    using that d timer_tick_shows[of "(s, q)"] by simp
  have "intervals ?pi = intervals p @ [5000]" by simp
  with i k g show ?thesis by blast
qed

theorem rotator_exactly_one_visible_witness:
  "distinct (document landing_page)
   \<and> querySelectorAll_class landing_page ''testimonial-card'' = [4, 5]
   \<and> (\<exists>s0 p0. initTestimonialsSlider landing_page = (Some s0, p0)
         \<and> display (elems p0 4) = ''block'' \<and> display (elems p0 5) = ''none''
         \<and> display (elems (snd (timer_tick (s0, p0))) 4) = ''none''
         \<and> display (elems (snd (timer_tick (s0, p0))) 5) = ''block'')"
proof -
  have d: "distinct (document landing_page)"
    by (simp add: landing_defs)
  have t: "[4, 5] = querySelectorAll_class landing_page ''testimonial-card''"
    by (simp add: querySelectorAll_class_def landing_defs)
  have l: "2 \<le> length [4::nat, 5]" by simp
  from rotator_exactly_one_visible[OF d t l]
  obtain s0 p0 where i: "initTestimonialsSlider landing_page = (Some s0, p0)"
    and k: "\<forall>k. currentTestimonial (fst ((timer_tick ^^ k) (s0, p0))) = k mod length [4::nat, 5]
                 \<and> (\<forall>j<length [4::nat, 5].
                       display (elems (snd ((timer_tick ^^ k) (s0, p0))) ([4, 5] ! j))
                         = (if j = k mod length [4::nat, 5] then ''block'' else ''none''))"
    by blast
  have e: "display (elems (snd ((timer_tick ^^ k) (s0, p0))) ([4, 5] ! j))
             = (if j = k mod length [4::nat, 5] then ''block'' else ''none'')"
    if "j < length [4::nat, 5]" for k j
    using k that by blast
  from e[of 0 0] e[of 1 0] e[of 0 1] e[of 1 1] have
    "display (elems p0 4) = ''block''" "display (elems p0 5) = ''none''"
    "display (elems (snd (timer_tick (s0, p0))) 4) = ''none''"
    "display (elems (snd (timer_tick (s0, p0))) 5) = ''block''"
    by simp_all
  with i d t[symmetric] show ?thesis by simp
qed

section \<open>Scroll animations\<close>

lemma reveal_fields [simp]:
  "document (reveal n p) = document p"
  "innerHeight (reveal n p) = innerHeight p"
  "intervals (reveal n p) = intervals p"
  by (simp_all add: reveal_def Let_def)

lemma reveal_keeps_revealed:
  "revealed (elems p e) \<Longrightarrow> revealed (elems (reveal n p) e)"
  by (simp add: reveal_def revealed_def Let_def)

lemma fold_reveal_keeps_revealed:
  "revealed (elems p e) \<Longrightarrow> revealed (elems (fold reveal ns p) e)"
  by (induction ns arbitrary: p) (simp_all add: reveal_keeps_revealed)

lemma relayout_keeps_revealed:
  "revealed (elems p e) \<Longrightarrow> revealed (elems (relayout l p) e)"
  by (simp add: relayout_def revealed_def)

text \<open>
  C8. The reveal is one-way: an element whose opacity is \<^verbatim>\<open>1\<close> and whose transform is
  \<^verbatim>\<open>translateY(0)\<close> keeps both through every sequence of scroll events, whatever the
  layout at each of them.
\<close>

theorem reveal_is_one_way:
  assumes "opacity (elems p e) = ''1''" and "transform (elems p e) = ''translateY(0)''"
  shows "opacity (elems (scroll_events ls p) e) = ''1''
       \<and> transform (elems (scroll_events ls p) e) = ''translateY(0)''"
proof -
  have "revealed (elems p e) \<Longrightarrow> revealed (elems (scroll_events ls p) e)"
    by (induction ls arbitrary: p)
       (simp_all add: animateOnScroll_def fold_reveal_keeps_revealed relayout_keeps_revealed)
  with assms show ?thesis by (simp add: revealed_def)
qed

lemma set_initial_state_fields [simp]:
  "document (set_initial_state n p) = document p"
  "innerHeight (set_initial_state n p) = innerHeight p"
  "intervals (set_initial_state n p) = intervals p"
  by (simp_all add: set_initial_state_def)

lemma fold_initial_fields [simp]:
  "document (fold set_initial_state ns p) = document p"
  "innerHeight (fold set_initial_state ns p) = innerHeight p"
  by (induction ns arbitrary: p) simp_all

lemma fold_initial_elems:
  "elems (fold set_initial_state ns p) c =
     (if c \<in> set ns
      then (elems p c)\<lparr>opacity := ''0'', transform := ''translateY(20px)'',
                        transition := ''opacity 0.6s ease, transform 0.6s ease''\<rparr>
      else elems p c)"
  by (induction ns arbitrary: p) (auto simp add: set_initial_state_def)

lemma fold_reveal_fields [simp]:
  "document (fold reveal ns p) = document p"
  "innerHeight (fold reveal ns p) = innerHeight p"
  by (induction ns arbitrary: p) simp_all

lemma fold_reveal_elems:
  "elems (fold reveal ns p) c =
     (if c \<in> set ns \<and> rectTop (elems p c) < real_of_int (innerHeight p) - 150
      then (elems p c)\<lparr>opacity := ''1'', transform := ''translateY(0)''\<rparr>
      else elems p c)"
  by (induction ns arbitrary: p) (auto simp add: reveal_def Let_def)

lemma animated_cards_initial [simp]:
  "animated_cards (fold set_initial_state ns p) = animated_cards p"
  by (simp add: animated_cards_def fold_initial_elems cong: filter_cong)

lemma initScrollAnimations_elems:
  "elems (initScrollAnimations p) c =
     (if c \<in> set (animated_cards p) then
        (if rectTop (elems p c) < real_of_int (innerHeight p) - 150
         then (elems p c)\<lparr>opacity := ''1'', transform := ''translateY(0)'',
                           transition := ''opacity 0.6s ease, transform 0.6s ease''\<rparr>
         else (elems p c)\<lparr>opacity := ''0'', transform := ''translateY(20px)'',
                           transition := ''opacity 0.6s ease, transform 0.6s ease''\<rparr>)
      else elems p c)"
  by (simp add: initScrollAnimations_def animateOnScroll_def fold_reveal_elems fold_initial_elems)

lemma testimonial_is_animated:
  "c \<in> set (querySelectorAll_class p ''testimonial-card'') \<Longrightarrow> c \<in> set (animated_cards p)"
  by (simp add: querySelectorAll_class_def animated_cards_def)

theorem reveal_is_one_way_witness:
  "opacity (elems (scroll_events [scrolled_into_view] landing_page) 4) = ''1''
   \<and> transform (elems (scroll_events [scrolled_into_view] landing_page) 4) = ''translateY(0)''
   \<and> opacity (elems (scroll_events [scrolled_back_up]
                        (scroll_events [scrolled_into_view] landing_page)) 4) = ''1''
   \<and> transform (elems (scroll_events [scrolled_back_up]
                        (scroll_events [scrolled_into_view] landing_page)) 4) = ''translateY(0)''"
proof -
  have a: "4 \<in> set (animated_cards (relayout scrolled_into_view landing_page))"
    by (simp add: animated_cards_def relayout_def scrolled_into_view_def landing_defs)
  have o: "opacity (elems (scroll_events [scrolled_into_view] landing_page) 4) = ''1''"
    and t: "transform (elems (scroll_events [scrolled_into_view] landing_page) 4) = ''translateY(0)''"
    using a by (simp_all add: animateOnScroll_def fold_reveal_elems relayout_def
        scrolled_into_view_def landing_defs)
  from reveal_is_one_way[OF o t, of "[scrolled_back_up]"] o t show ?thesis by simp
qed

text \<open>
  C4, as the code has it. With at most one testimonial card the rotator registers no
  timer and returns the page unchanged. The scroll animations, later in the same
  start-up, leave the card's display alone and set its opacity to \<^verbatim>\<open>1\<close> when its
  top edge is less than the viewport height minus 150, and to \<^verbatim>\<open>0\<close> otherwise. So
  when \<^verbatim>\<open>init()\<close> has run the card is shown exactly when its display is not
  \<^verbatim>\<open>none\<close> and its top edge is that far up the viewport.
\<close>

theorem rotator_skips_single_card:
  assumes "length (querySelectorAll_class p ''testimonial-card'') \<le> 1"
  shows "initTestimonialsSlider p = (None, p)
       \<and> (\<forall>c \<in> set (querySelectorAll_class p ''testimonial-card'').
             display (elems (init_cards p) c) = display (elems p c)
           \<and> opacity (elems (init_cards p) c)
               = (if rectTop (elems p c) < real_of_int (innerHeight p) - 150
                  then ''1'' else ''0'')
           \<and> (shown (elems (init_cards p) c)
                \<longleftrightarrow> display (elems p c) \<noteq> ''none''
                    \<and> rectTop (elems p c) < real_of_int (innerHeight p) - 150))"
  using assms
  by (simp add: initTestimonialsSlider_def init_cards_def initScrollAnimations_elems
        testimonial_is_animated shown_def)

theorem rotator_skips_single_card_witness:
  "length (querySelectorAll_class single_card_page ''testimonial-card'') = 1
   \<and> 4 \<in> set (querySelectorAll_class single_card_page ''testimonial-card'')
   \<and> initTestimonialsSlider single_card_page = (None, single_card_page)
   \<and> display (elems (init_cards single_card_page) 4) = display (elems single_card_page 4)
   \<and> opacity (elems (init_cards single_card_page) 4) = ''0''
   \<and> \<not> shown (elems (init_cards single_card_page) 4)"
proof -
  have q: "querySelectorAll_class single_card_page ''testimonial-card'' = [4]"
    by (simp add: querySelectorAll_class_def landing_defs)
  then have l: "length (querySelectorAll_class single_card_page ''testimonial-card'') \<le> 1"
    by simp
  have r: "\<not> rectTop (elems single_card_page 4) < real_of_int (innerHeight single_card_page) - 150"
    by (simp add: landing_defs)
  from rotator_skips_single_card[OF l] q r show ?thesis by simp
qed

text \<open>
  C4 as stated fails: a single card whose top edge lies 700 pixels down an 800 pixel
  viewport, inside the viewport, is shown before start-up and fully transparent after it.
\<close>

theorem single_card_hidden_counterexample:
  "querySelectorAll_class single_card_page ''testimonial-card'' = [4]
   \<and> initTestimonialsSlider single_card_page = (None, single_card_page)
   \<and> shown (elems single_card_page 4)
   \<and> opacity (elems (init_cards single_card_page) 4) = ''0''
   \<and> \<not> shown (elems (init_cards single_card_page) 4)"
proof -
  have q: "querySelectorAll_class single_card_page ''testimonial-card'' = [4]"
    by (simp add: querySelectorAll_class_def landing_defs)
  have a: "4 \<in> set (animated_cards single_card_page)"
    by (rule testimonial_is_animated) (simp add: q)
  have i: "initTestimonialsSlider single_card_page = (None, single_card_page)"
    by (simp add: initTestimonialsSlider_def q)
  have s: "shown (elems single_card_page 4)"
    by (simp add: shown_def landing_defs)
  have r: "\<not> rectTop (elems single_card_page 4) < real_of_int (innerHeight single_card_page) - 150"
    by (simp add: landing_defs)
  have o: "opacity (elems (init_cards single_card_page) 4) = ''0''"
    using a r by (simp add: init_cards_def i initScrollAnimations_elems)
  from q i s o show ?thesis by (simp add: shown_def)
qed

section \<open>The form validator\<close>


lemma following_notin: "n \<notin> set cs \<Longrightarrow> following n cs = []"
  by (induction cs) auto






















lemma following_Cons_other: "x \<noteq> c \<Longrightarrow> following x (c # cs) = following x cs"
  by simp







lemma same_tree_simps:
  assumes "same_tree d d'"
  shows "following_siblings d' = following_siblings d"
    and "nextSibling d' = nextSibling d"
    and "nextElementSibling d' = nextElementSibling d"
    and "required_field d' = required_field d"
    and "\<And>n. is_msg d' n = is_msg d n"
    and "followed_by_message d' = followed_by_message d"
    and "wf_dom d' = wf_dom d"
    and "fields_ok F d' = fields_ok F d"
    and "fresh d' = fresh d"
proof -
  from assms have f: "fresh d' = fresh d"
    and e: "\<And>n. isElement (nodes d' n) = isElement (nodes d n)"
    and l: "\<And>n. localName (nodes d' n) = localName (nodes d n)"
    and r: "\<And>n. required (nodes d' n) = required (nodes d n)"
    and p: "\<And>n. parentNode (nodes d' n) = parentNode (nodes d n)"
    and c: "\<And>n. childNodes (nodes d' n) = childNodes (nodes d n)"
    and m: "\<And>n. (''error-message'' \<in> set (classNames (nodes d' n)))
                = (''error-message'' \<in> set (classNames (nodes d n)))"
    unfolding same_tree_def by blast+
  show 1: "following_siblings d' = following_siblings d"
    by (simp add: fun_eq_iff following_siblings_def p c split: option.split)
  show "nextSibling d' = nextSibling d"
    by (simp add: fun_eq_iff nextSibling_def 1)
  show 2: "nextElementSibling d' = nextElementSibling d"
    by (simp add: fun_eq_iff nextElementSibling_def 1 e)
  show 3: "required_field d' = required_field d"
    by (simp add: fun_eq_iff required_field_def e l r)
  show 4: "\<And>n. is_msg d' n = is_msg d n"
    by (simp add: classList_contains_def m)
  show 5: "followed_by_message d' = followed_by_message d"
    by (simp add: fun_eq_iff followed_by_message_def 2 4 split: option.split)
  show 6: "wf_dom d' = wf_dom d"
    by (simp add: wf_dom_def p c f 3)
  show "fields_ok F d' = fields_ok F d"
    by (simp add: fields_ok_def 2 3 4 5 6)
  show "fresh d' = fresh d" by (rule f)
qed

lemma update_node_simps [simp]:
  "nodes (update_node n f d) = (nodes d)(n := f (nodes d n))"
  "fresh (update_node n f d) = fresh d"
  by (simp_all add: update_node_def)











































lemma set_values_same_tree: "same_tree d (set_values f d)"
  by (simp add: same_tree_def set_values_def)

lemma set_values_simps:
  "fieldValue (nodes (set_values f d) n) = f n"
  "classList_contains (set_values f d) n c = classList_contains d n c"
  "empty_field (set_values f d) n = (trim (f n) = [])"
  by (simp_all add: set_values_def classList_contains_def empty_field_def)

lemma set_values_marks:
  "clean (set_values f d) n = clean d n"
  "marked (set_values f d) n = marked d n"
  using same_tree_simps(6)[OF set_values_same_tree[of d f]]
  by (simp_all add: clean_def marked_def set_values_simps)




























end
